theory Spec2Isabelle
  imports Main
begin

section \<open>IRS 990 XML extraction (scripts/xml_extraction.py)\<close>

subsection \<open>Python values and exceptions\<close>

text \<open>
  An optional string \<open>str | None\<close> is a \<open>string option\<close>: Python's \<open>None\<close> is
  \<open>None\<close>, the string \<open>s\<close> is \<open>Some s\<close>; the empty string \<open>''\<close> is \<open>Some []\<close>.
  The exceptions the code can raise are values of \<open>error\<close>; a call that may raise
  returns \<open>error + 'a\<close>.
\<close>

datatype error = TypeError | AttributeError | KeyError

definition err_bind :: "error + 'a \<Rightarrow> ('a \<Rightarrow> error + 'b) \<Rightarrow> error + 'b" where
  "err_bind m f = (case m of Inl e \<Rightarrow> Inl e | Inr a \<Rightarrow> f a)"

text \<open>The arguments of a call are evaluated left to right; the first exception wins.\<close>

fun eval_args :: "(error + 'a) list \<Rightarrow> error + 'a list" where
  "eval_args [] = Inr []"
| "eval_args (a # as) = err_bind a (\<lambda>v. err_bind (eval_args as) (\<lambda>vs. Inr (v # vs)))"

text \<open>
  A dict with string keys keeps its insertion order: an association list.
  \<open>d[k] = v\<close> replaces the value of an existing key in place and appends a new key.
\<close>

type_synonym pydict = "(string \<times> string option) list"

fun setitem :: "string \<Rightarrow> string option \<Rightarrow> pydict \<Rightarrow> pydict" where
  "setitem k v [] = [(k, v)]"
| "setitem k v ((k', v') # d) = (if k' = k then (k, v) # d else (k', v') # setitem k v d)"

subsection \<open>ElementTree elements and the paths the script uses\<close>

text \<open>
  An \<open>xml.etree.ElementTree.Element\<close>: its tag (the namespace-qualified name
  \<open>{uri}local\<close>), its \<open>text\<close> attribute (\<open>None\<close> when the element has no text before its
  first child) and its children in document order.
\<close>

datatype element = Element (tag: string) (elem_text: "string option") (children: "element list")

definition ns :: string where
  "ns = ''http://www.irs.gov/efile''"

text \<open>With \<open>ns = {'': uri}\<close> the path tokenizer qualifies every tag name of a path.\<close>

definition qname :: "string \<Rightarrow> string" where
  "qname t = ''{'' @ ns @ ''}'' @ t"

text \<open>\<open>Element.iter()\<close>: the element, then its descendants, in document order.\<close>

fun iter :: "element \<Rightarrow> element list" where
  "iter (Element t x cs) = Element t x cs # concat (map iter cs)"

text \<open>
  The compiled form of a path: \<open>.\<close> is \<open>Self\<close>, \<open>//name\<close> is \<open>Descendant name\<close>,
  \<open>name\<close> after the start or after \<open>/\<close> is \<open>Child name\<close>, \<open>*\<close> is \<open>Star\<close>.
  Each selector maps the current result list to the next one (ElementPath's
  \<open>prepare_self\<close>, \<open>prepare_descendant\<close>, \<open>prepare_child\<close>, \<open>prepare_star\<close>).
\<close>

datatype step = Self | Descendant string | Child string | Star

fun select :: "step \<Rightarrow> element list \<Rightarrow> element list" where
  "select Self result = result"
| "select (Descendant t) result =
     concat (map (\<lambda>elem. filter (\<lambda>e. tag e = qname t) (concat (map iter (children elem)))) result)"
| "select (Child t) result =
     concat (map (\<lambda>elem. filter (\<lambda>e. tag e = qname t) (children elem)) result)"
| "select Star result = concat (map children result)"

definition iterfind :: "element \<Rightarrow> step list \<Rightarrow> element list" where
  "iterfind elem path = fold select path [elem]"

definition findall :: "element \<Rightarrow> step list \<Rightarrow> element list" where
  "findall elem path = iterfind elem path"

definition find_elem :: "element \<Rightarrow> step list \<Rightarrow> element option" where
  "find_elem elem path = (case iterfind elem path of [] \<Rightarrow> None | e # _ \<Rightarrow> Some e)"

subsection \<open>Utilities: \<open>safe_text\<close> and \<open>coalesce\<close>\<close>

text \<open>
  The argument of \<open>safe_text\<close> is dynamically typed: \<open>None\<close> (what \<open>find\<close> returns
  when nothing matches), one \<open>Element\<close> (what \<open>find\<close> returns otherwise) or a list of
  elements (what \<open>findall\<close> returns).
\<close>

datatype located = Nothing | One element | Many "element list"

definition of_find :: "element option \<Rightarrow> located" where
  "of_find r = (case r of None \<Rightarrow> Nothing | Some e \<Rightarrow> One e)"

text \<open>\<open>sep.join(items)\<close> raises TypeError at an item that is not a string.\<close>

fun join :: "string \<Rightarrow> string list \<Rightarrow> string" where
  "join sep [] = []"
| "join sep [x] = x"
| "join sep (x # y # ys) = x @ sep @ join sep (y # ys)"

fun str_items :: "string option list \<Rightarrow> error + string list" where
  "str_items [] = Inr []"
| "str_items (None # xs) = Inl TypeError"
| "str_items (Some s # xs) = err_bind (str_items xs) (\<lambda>ss. Inr (s # ss))"

definition py_join :: "string \<Rightarrow> string option list \<Rightarrow> error + string" where
  "py_join sep items = err_bind (str_items items) (\<lambda>ss. Inr (join sep ss))"

fun safe_text :: "located \<Rightarrow> error + string option" where
  "safe_text Nothing = Inr (Some '''')"
| "safe_text (One e) = Inr (elem_text e)"
| "safe_text (Many es) = err_bind (py_join '' '' (map elem_text es)) (\<lambda>s. Inr (Some s))"

text \<open>\<open>next((v for v in values if v is not None), None)\<close>\<close>

definition coalesce :: "'a option list \<Rightarrow> 'a option" where
  "coalesce values = (case filter (\<lambda>v. v \<noteq> None) values of [] \<Rightarrow> None | v # _ \<Rightarrow> v)"

text \<open>The call \<open>coalesce(a1, ..., an)\<close> with its argument expressions.\<close>

definition call_coalesce :: "(error + 'a option) list \<Rightarrow> error + 'a option" where
  "call_coalesce args = err_bind (eval_args args) (\<lambda>values. Inr (coalesce values))"

subsection \<open>\<open>parse_return\<close>\<close>

definition parse_return :: "element \<Rightarrow> string \<Rightarrow> error + pydict" where
  "parse_return root fname =
    (let fields = [];
         fields = setitem ''src_fname'' (Some fname) fields
     in err_bind (call_coalesce
          [safe_text (of_find (find_elem root [Self, Descendant ''ReturnTypeCd''])),
           safe_text (of_find (find_elem root [Self, Descendant ''ReturnType'']))]) (\<lambda>v.
     let fields = setitem ''return_type'' v fields
     in err_bind (safe_text (of_find (find_elem root [Self, Descendant ''Filer'', Child ''EIN'']))) (\<lambda>v.
     let fields = setitem ''ein'' v fields
     in err_bind (call_coalesce
          [safe_text (of_find (find_elem root [Self, Descendant ''Filer'', Child ''BusinessName'', Star])),
           safe_text (of_find (find_elem root [Self, Descendant ''Filer'', Child ''Name'', Star]))]) (\<lambda>v.
     let fields = setitem ''business_name'' v fields
     in err_bind (safe_text (Many (findall root [Self, Descendant ''Filer'', Child ''USAddress'', Star]))) (\<lambda>v.
     let fields = setitem ''business_address'' v fields
     in err_bind (call_coalesce
          [safe_text (of_find (find_elem root [Self, Descendant ''PreparerFirmName'', Star])),
           safe_text (of_find (find_elem root [Self, Descendant ''PreparerFirmBusinessName'', Star]))]) (\<lambda>v.
     let fields = setitem ''preparer_firm'' v fields
     in err_bind (call_coalesce
          [safe_text (Many (findall root [Self, Descendant ''PreparerUSAddress'', Star])),
           safe_text (Many (findall root [Self, Descendant ''PreparerFirmUSAddress'', Star]))]) (\<lambda>v.
     let fields = setitem ''preparer_address'' v fields
     in err_bind (call_coalesce
          [safe_text (of_find (find_elem root [Self, Descendant ''TaxYr''])),
           safe_text (of_find (find_elem root [Self, Descendant ''TaxYear'']))]) (\<lambda>v.
     let fields = setitem ''tax_year'' v fields
     in Inr fields))))))))"

subsection \<open>\<open>parse_officers\<close>\<close>

text \<open>The dict built for one repeated officer structure (the body of the loop).\<close>

definition officer_fields :: "element \<Rightarrow> error + pydict" where
  "officer_fields officer =
     err_bind (call_coalesce
       [safe_text (of_find (find_elem officer [Child ''PersonNm''])),
        safe_text (Many (findall officer [Self, Descendant ''BusinessName'', Star])),
        safe_text (of_find (find_elem officer [Child ''PersonName'']))]) (\<lambda>name.
     err_bind (call_coalesce
       [safe_text (of_find (find_elem officer [Child ''TitleTxt''])),
        safe_text (of_find (find_elem officer [Child ''Title'']))]) (\<lambda>title.
     err_bind (safe_text (Many (findall officer [Self, Descendant ''USAddress'', Star]))) (\<lambda>address.
     Inr [(''name'', name), (''title'', title), (''address'', address)])))"

text \<open>\<open>for officer in officers: ...; records += [fields]\<close>\<close>

fun officers_loop :: "element list \<Rightarrow> pydict list \<Rightarrow> error + pydict list" where
  "officers_loop [] records = Inr records"
| "officers_loop (officer # rest) records =
     err_bind (officer_fields officer) (\<lambda>fields. officers_loop rest (records @ [fields]))"

text \<open>
  In the header fallback \<open>officer\<close> is what \<open>find\<close> returned: an element or \<open>None\<close>.
  \<open>officer.find(path, ns)\<close> on \<open>None\<close> raises AttributeError.
\<close>

definition find_on :: "element option \<Rightarrow> step list \<Rightarrow> error + element option" where
  "find_on officer path =
     (case officer of None \<Rightarrow> Inl AttributeError | Some e \<Rightarrow> Inr (find_elem e path))"

definition header_officer_fields :: "element option \<Rightarrow> error + pydict" where
  "header_officer_fields officer =
     err_bind (call_coalesce
       [err_bind (find_on officer [Child ''PersonNm'']) (\<lambda>r. safe_text (of_find r)),
        err_bind (find_on officer [Child ''Name'']) (\<lambda>r. safe_text (of_find r))]) (\<lambda>name.
     err_bind (call_coalesce
       [err_bind (find_on officer [Child ''PersonTitleTxt'']) (\<lambda>r. safe_text (of_find r)),
        err_bind (find_on officer [Child ''Title'']) (\<lambda>r. safe_text (of_find r))]) (\<lambda>title.
     Inr [(''name'', name), (''title'', title), (''address'', Some '''')]))"

text \<open>The list \<open>officers\<close>: the four \<open>findall\<close> results, concatenated in this order.\<close>

definition officers_scan :: "element \<Rightarrow> element list" where
  "officers_scan root =
     findall root [Self, Descendant ''OfficerDirTrstKeyEmplGrp'']
     @ findall root [Self, Descendant ''OfficerDirectorTrusteeEmplGrp'']
     @ findall root [Self, Descendant ''OfcrDirTrusteesOrKeyEmployee'']
     @ findall root [Self, Descendant ''Form990PartVIISectionAGrp'']"

text \<open>The branch under \<open>if not records\<close>.\<close>

definition header_fallback :: "element \<Rightarrow> pydict list \<Rightarrow> error + pydict list" where
  "header_fallback root records =
     (let officer = find_elem root [Self, Descendant ''BusinessOfficerGrp''];
          officer = (if officer = None then find_elem root [Self, Descendant ''Officer'']
                     else officer)
      in err_bind (header_officer_fields officer) (\<lambda>fields. Inr (records @ [fields])))"

definition parse_officers :: "element \<Rightarrow> string \<Rightarrow> error + pydict list" where
  "parse_officers root fname =
     (let records = [];
          officers = officers_scan root
      in err_bind (officers_loop officers records) (\<lambda>records.
         if records = [] then header_fallback root records else Inr records))"

subsection \<open>\<open>parse_grants\<close>\<close>

definition grant_fields :: "element \<Rightarrow> error + pydict" where
  "grant_fields grant =
     err_bind (call_coalesce
       [safe_text (of_find (find_elem grant [Child ''RecipientPersonNm''])),
        safe_text (Many (findall grant [Self, Descendant ''RecipientBusinessName'', Star]))]) (\<lambda>recipient_name.
     err_bind (safe_text (Many (findall grant [Self, Descendant ''RecipientUSAddress'', Star]))) (\<lambda>recipient_address.
     err_bind (safe_text (of_find (find_elem grant [Self, Descendant ''GrantOrContributionPurposeTxt'']))) (\<lambda>purpose.
     err_bind (safe_text (of_find (find_elem grant [Child ''Amt'']))) (\<lambda>amount.
     Inr [(''recipient_name'', recipient_name), (''recipient_address'', recipient_address),
          (''purpose'', purpose), (''amount'', amount)]))))"

fun grants_loop :: "element list \<Rightarrow> pydict list \<Rightarrow> error + pydict list" where
  "grants_loop [] records = Inr records"
| "grants_loop (grant # rest) records =
     err_bind (grant_fields grant) (\<lambda>fields. grants_loop rest (records @ [fields]))"

definition parse_grants :: "element \<Rightarrow> string \<Rightarrow> error + pydict list" where
  "parse_grants root fname =
     (let records = [];
          grants = findall root [Self, Descendant ''GrantOrContributionPdDurYrGrp'']
      in grants_loop grants records)"

subsection \<open>\<open>export_to_csv\<close>: flattening the data tree\<close>

text \<open>
  The officer and grant dicts are objects that the flattening loop updates in place, so they
  live in a store and the lists hold their addresses. A composite record, as \<open>return_tree\<close>
  builds it, always has the keys \<open>src_fname\<close>, \<open>officers\<close> and \<open>grants\<close>; \<open>header\<close> holds
  its other keys. The loop only reads it.
\<close>

type_synonym addr = nat

type_synonym heap = "addr \<Rightarrow> pydict"

record return_fields =
  src_fname :: string
  header :: pydict

record tree = return_fields +
  officers :: "addr list"
  grants :: "addr list"

text \<open>\<open>for x in xs: x['src_fname'] = fname; out += [x]\<close>\<close>

fun stamp_loop :: "string \<Rightarrow> addr list \<Rightarrow> heap \<times> addr list \<Rightarrow> heap \<times> addr list" where
  "stamp_loop fname [] (h, out) = (h, out)"
| "stamp_loop fname (x # xs) (h, out) =
     stamp_loop fname xs (h(x := setitem ''src_fname'' (Some fname) (h x)), out @ [x])"

fun flatten_loop :: "tree list \<Rightarrow> heap \<times> addr list \<times> addr list \<Rightarrow> heap \<times> addr list \<times> addr list" where
  "flatten_loop [] s = s"
| "flatten_loop (r # rs) (h, officers_out, grants_out) =
     (let (h, officers_out) = stamp_loop (src_fname r) (officers r) (h, officers_out);
          (h, grants_out) = stamp_loop (src_fname r) (grants r) (h, grants_out)
      in flatten_loop rs (h, officers_out, grants_out))"

text \<open>
  \<open>pd.DataFrame(returns)\<close> has one row per record and one column per key that occurs in a
  record, in the order of first appearance; the frame of no records has no column.
  \<open>del df[c]\<close> raises KeyError when the frame has no column \<open>c\<close>. What is left of a row
  after \<open>del df['officers']\<close> and \<open>del df['grants']\<close> is the record without its two nested
  collections.
\<close>

definition keys_of :: "tree \<Rightarrow> string list" where
  "keys_of r = ''src_fname'' # map fst (header r) @ [''officers'', ''grants'']"

definition frame_columns :: "tree list \<Rightarrow> string list" where
  "frame_columns data = rev (remdups (rev (concat (map keys_of data))))"

definition del_column :: "string \<Rightarrow> string list \<Rightarrow> error + string list" where
  "del_column c columns = (if c \<in> set columns then Inr (removeAll c columns) else Inl KeyError)"

definition del_nested :: "tree \<Rightarrow> return_fields" where
  "del_nested r = \<lparr>src_fname = src_fname r, header = header r\<rparr>"

text \<open>
  Lines 193 to 216 of \<open>export_to_csv\<close>: the loop, then the three data frames. The result is
  the store after the loop and, unless \<open>del\<close> raises, the frame of the returns (its columns
  and rows) and the rows of the officers' and of the grants' frame, which are the dicts as the
  loop left them. Writing the frames to the csv files and the zip archive is input and
  output, which is not modelled.
\<close>

definition export_to_csv ::
  "heap \<Rightarrow> tree list \<Rightarrow>
   heap \<times> (error + (string list \<times> return_fields list) \<times> pydict list \<times> pydict list)" where
  "export_to_csv h data_tree =
     (let returns = data_tree;
          (h', officers_out, grants_out) = flatten_loop returns (h, [], [])
      in (h',
          err_bind (del_column ''officers'' (frame_columns returns)) (\<lambda>columns.
          err_bind (del_column ''grants'' columns) (\<lambda>columns.
          Inr ((columns, map del_nested returns), map h' officers_out, map h' grants_out)))))"

subsection \<open>The in-place updates of a flattening run\<close>

text \<open>
  One execution of \<open>x['src_fname'] = fname\<close> on the store, and the sequence of these
  updates that the loop body performs for one composite record (its officers, then its
  grants).
\<close>

definition stamp :: "addr \<times> string \<Rightarrow> heap \<Rightarrow> heap" where
  "stamp s h = h(fst s := setitem ''src_fname'' (Some (snd s)) (h (fst s)))"

definition stamps_of :: "tree \<Rightarrow> (addr \<times> string) list" where
  "stamps_of r = map (\<lambda>a. (a, src_fname r)) (officers r @ grants r)"

section \<open>Properties\<close>

subsection \<open>Evaluation rules\<close>

lemma err_bind_simps [simp]:
  "err_bind (Inl e) f = Inl e"
  "err_bind (Inr a) f = f a"
  by (simp_all add: err_bind_def)

lemma qname_eq [simp]: "qname a = qname b \<longleftrightarrow> a = b"
  by (simp add: qname_def)

lemmas lookup_defs = find_elem_def findall_def iterfind_def of_find_def

lemmas call_defs = call_coalesce_def coalesce_def py_join_def

lemma eval_args_length: "eval_args xs = Inr vs \<Longrightarrow> length vs = length xs"
proof (induction xs arbitrary: vs)
  case Nil
  then show ?case by simp
next
  case (Cons x xs)
  then show ?case by (auto simp: err_bind_def split: sum.splits)
qed

subsection \<open>The text resolver \<open>safe_text\<close>\<close>

lemma str_items_Some [simp]: "str_items (map Some ts) = Inr ts"
  by (induction ts) simp_all

lemma str_items_None: "None \<in> set xs \<Longrightarrow> str_items xs = Inl TypeError"
proof (induction xs)
  case Nil
  then show ?case by simp
next
  case (Cons x xs)
  then show ?case by (cases x) auto
qed

lemma str_items_all: "\<forall>x\<in>set xs. x \<noteq> None \<Longrightarrow> str_items xs = Inr (map the xs)"
proof (induction xs)
  case Nil
  then show ?case by simp
next
  case (Cons x xs)
  then show ?case by (cases x) auto
qed

lemma join_Cons: "join sep (t # ts) = t @ concat (map (\<lambda>u. sep @ u) ts)"
  by (induction ts arbitrary: t) simp_all

lemma py_join_Some: "py_join sep (map Some ts) = Inr (join sep ts)"
  by (simp add: py_join_def)

lemma safe_text_find_ok:
  "safe_text (of_find r) = Inr (case r of None \<Rightarrow> Some '''' | Some e \<Rightarrow> elem_text e)"
  by (cases r) (simp_all add: of_find_def)

lemma safe_text_Many_ok:
  "\<forall>e\<in>set es. elem_text e \<noteq> None \<Longrightarrow>
   safe_text (Many es) = Inr (Some (join '' '' (map (the \<circ> elem_text) es)))"
  by (simp add: py_join_def str_items_all)

lemma safe_text_Many_raises:
  assumes "\<exists>e\<in>set es. elem_text e = None"
  shows "safe_text (Many es) = Inl TypeError"
proof -
  from assms have "None \<in> set (map elem_text es)" by force
  then show ?thesis by (simp add: py_join_def str_items_None)
qed

text \<open>
  C4, as the claim states it, fails: when the lookup finds nothing, \<open>safe_text\<close> returns
  the empty string \<open>''\<close>, which is a string and not \<open>None\<close>. The document has no \<open>EIN\<close>
  element; \<open>find\<close> returns \<open>None\<close> and the resolver's output differs from \<open>None\<close>.
\<close>

theorem safe_text_nothing_counterexample:
  "find_elem (Element (qname ''Return'') None []) [Self, Descendant ''EIN''] = None \<and>
   safe_text (of_find (find_elem (Element (qname ''Return'') None []) [Self, Descendant ''EIN'']))
     \<noteq> Inr None"
  by (simp add: lookup_defs)

text \<open>
  C4, amended: for every result \<open>r\<close> of a \<open>find\<close> lookup, \<open>safe_text\<close> raises nothing;
  when the lookup found nothing its output is the empty string \<open>''\<close>, and when it located
  one element the output is that element's \<open>text\<close> attribute, unmodified (\<open>None\<close> when
  the element has no text). A \<open>findall\<close> lookup that found nothing, the empty list, gives
  the empty string as well.
\<close>

theorem safe_text_of_find:
  "safe_text (of_find r) = Inr (case r of None \<Rightarrow> Some '''' | Some e \<Rightarrow> elem_text e) \<and>
   safe_text (Many []) = Inr (Some '''')"
  by (cases r) (simp_all add: of_find_def py_join_def)

text \<open>
  On a list of elements that all have text, \<open>safe_text\<close> returns the first text followed by
  each further text behind exactly one space: every text occurs once, in the order of the
  elements. Joining \<open>123 Main St\<close> and \<open>Suite 4\<close> gives \<open>123 Main St Suite 4\<close>.
\<close>

lemma safe_text_join_texts:
  assumes "map elem_text es = map Some (t # ts)"
  shows "safe_text (Many es) = Inr (Some (t @ concat (map (\<lambda>u. '' '' @ u) ts)))"
proof -
  have "py_join '' '' (map elem_text es) = Inr (join '' '' (t # ts))"
    unfolding assms by (rule py_join_Some)
  then show ?thesis
    by (simp add: join_Cons)
qed

lemma safe_text_join_example:
  "safe_text (Many [Element a (Some ''123 Main St'') cs, Element b (Some ''Suite 4'') ds])
     = Inr (Some ''123 Main St Suite 4'')"
  by (simp add: py_join_def)

text \<open>
  C9: the code departs from the claim. The lookup \<open>.//USAddress/*\<close> locates two elements,
  the second one without text; \<open>safe_text\<close> does not join the textual contents of the list:
  it raises TypeError.
\<close>

theorem join_with_empty_line_raises:
  "findall
     (Element (qname ''Filer'') None
       [Element (qname ''USAddress'') None
         [Element (qname ''AddressLine1Txt'') (Some ''123 Main St'') [],
          Element (qname ''AddressLine2Txt'') None []]])
     [Self, Descendant ''USAddress'', Star]
   = [Element (qname ''AddressLine1Txt'') (Some ''123 Main St'') [],
      Element (qname ''AddressLine2Txt'') None []] \<and>
   safe_text (Many
     (findall
       (Element (qname ''Filer'') None
         [Element (qname ''USAddress'') None
           [Element (qname ''AddressLine1Txt'') (Some ''123 Main St'') [],
            Element (qname ''AddressLine2Txt'') None []]])
       [Self, Descendant ''USAddress'', Star])) = Inl TypeError"
  by (simp add: lookup_defs py_join_def)

text \<open>
  C10: on a list of located elements \<open>safe_text\<close> returns a value exactly when every
  element of the list has a text; if the text of any element is \<open>None\<close>, the join raises
  TypeError. The error branch is reachable from \<open>parse_return\<close>: a preparer address with
  an empty second line makes the whole extraction raise.
\<close>

theorem safe_text_many_raises_iff:
  "safe_text (Many es) =
     (if \<forall>e\<in>set es. elem_text e \<noteq> None
      then Inr (Some (join '' '' (map (the \<circ> elem_text) es)))
      else Inl TypeError) \<and>
   parse_return
     (Element (qname ''Return'') None
       [Element (qname ''PreparerUSAddress'') None
         [Element (qname ''AddressLine1'') (Some ''1 Elm St'') [],
          Element (qname ''AddressLine2'') None []]]) fname = Inl TypeError"
proof -
  have "safe_text (Many es) = Inl TypeError" if "\<not> (\<forall>e\<in>set es. elem_text e \<noteq> None)"
    using that by (intro safe_text_Many_raises) simp
  moreover have "safe_text (Many es) = Inr (Some (join '' '' (map (the \<circ> elem_text) es)))"
    if "\<forall>e\<in>set es. elem_text e \<noteq> None"
    using that by (rule safe_text_Many_ok)
  ultimately show ?thesis
    by (simp add: parse_return_def lookup_defs call_defs)
qed

theorem safe_text_many_raises_iff_witness:
  "safe_text (Many [Element ''a'' (Some ''1 Elm St'') [], Element ''b'' None []]) = Inl TypeError \<and>
   safe_text (Many [Element ''a'' (Some ''1 Elm St'') [], Element ''b'' (Some ''Apt 2'') []])
     = Inr (Some ''1 Elm St Apt 2'')"
  using safe_text_many_raises_iff [of "[Element ''a'' (Some ''1 Elm St'') [], Element ''b'' None []]"]
    safe_text_many_raises_iff
      [of "[Element ''a'' (Some ''1 Elm St'') [], Element ''b'' (Some ''Apt 2'') []]"]
  by simp

subsection \<open>The candidate coalescer \<open>coalesce\<close>\<close>

text \<open>On its argument values \<open>coalesce\<close> does what its docstring says.\<close>

lemma coalesce_None_iff: "coalesce vs = None \<longleftrightarrow> (\<forall>v\<in>set vs. v = None)"
proof (induction vs)
  case Nil
  then show ?case by (simp add: coalesce_def)
next
  case (Cons v vs)
  then show ?case by (cases v) (auto simp: coalesce_def split: list.splits)
qed

lemma coalesce_first_present:
  "\<forall>v\<in>set skipped. v = None \<Longrightarrow> coalesce (skipped @ Some x # rest) = Some x"
  by (induction skipped) (simp_all add: coalesce_def)

text \<open>
  A candidate that locates an element without text is skipped; a candidate that locates
  nothing is not, because \<open>safe_text\<close> has turned it into the empty string.
\<close>

lemma coalesce_two_finds:
  "call_coalesce [safe_text (of_find r1), safe_text (of_find r2)] =
     Inr (case r1 of None \<Rightarrow> Some ''''
          | Some e1 \<Rightarrow> (case elem_text e1 of Some t \<Rightarrow> Some t
              | None \<Rightarrow> (case r2 of None \<Rightarrow> Some '''' | Some e2 \<Rightarrow> elem_text e2)))"
  by (simp add: call_coalesce_def safe_text_find_ok coalesce_def split: option.splits)

text \<open>
  C1: the code departs from the claim. The document has the legacy \<open>TaxYear\<close> element with
  text \<open>2014\<close> and no \<open>TaxYr\<close> element: the first candidate's lookup finds nothing, yet the
  field \<open>tax_year\<close> is the empty string and not \<open>2014\<close>. The fields whose candidates are
  all absent are the empty string too, not \<open>None\<close>.
\<close>

theorem coalescer_no_fall_through:
  "parse_return
     (Element (qname ''Return'') None
       [Element (qname ''ReturnHeader'') None [Element (qname ''TaxYear'') (Some ''2014'') []]])
     ''201501.xml''
   = Inr [(''src_fname'', Some ''201501.xml''), (''return_type'', Some ''''), (''ein'', Some ''''),
          (''business_name'', Some ''''), (''business_address'', Some ''''),
          (''preparer_firm'', Some ''''), (''preparer_address'', Some ''''),
          (''tax_year'', Some '''')]"
  by (simp add: parse_return_def lookup_defs call_defs)

text \<open>
  C2: the code departs from the claim. The document has the legacy \<open>ReturnType\<close> element
  with text \<open>990PF\<close> and no \<open>ReturnTypeCd\<close> element; the field \<open>return_type\<close> is the
  empty string, not \<open>990PF\<close>.
\<close>

theorem legacy_return_type_ignored:
  "find_elem
     (Element (qname ''Return'') None
       [Element (qname ''ReturnHeader'') None [Element (qname ''ReturnType'') (Some ''990PF'') []]])
     [Self, Descendant ''ReturnTypeCd''] = None \<and>
   find_elem
     (Element (qname ''Return'') None
       [Element (qname ''ReturnHeader'') None [Element (qname ''ReturnType'') (Some ''990PF'') []]])
     [Self, Descendant ''ReturnType''] = Some (Element (qname ''ReturnType'') (Some ''990PF'') []) \<and>
   parse_return
     (Element (qname ''Return'') None
       [Element (qname ''ReturnHeader'') None [Element (qname ''ReturnType'') (Some ''990PF'') []]])
     ''201502.xml''
   = Inr [(''src_fname'', Some ''201502.xml''), (''return_type'', Some ''''), (''ein'', Some ''''),
          (''business_name'', Some ''''), (''business_address'', Some ''''),
          (''preparer_firm'', Some ''''), (''preparer_address'', Some ''''),
          (''tax_year'', Some '''')]"
  by (simp add: parse_return_def lookup_defs call_defs)

subsection \<open>The return header: \<open>parse_return\<close>\<close>

text \<open>Whenever \<open>parse_return\<close> returns, the record carries the file name it was given.\<close>

lemma parse_return_src_fname:
  assumes "parse_return root fname = Inr d"
  shows "map_of d ''src_fname'' = Some (Some fname)"
  using assms
  by (auto simp: parse_return_def call_coalesce_def safe_text_find_ok err_bind_def
      split: sum.splits)

text \<open>
  It returns one record with the eight keys when the sub-elements of the three joined
  address fields all have text (in particular when there are none).
\<close>

lemma parse_return_returns:
  assumes "\<forall>e\<in>set (findall root [Self, Descendant ''Filer'', Child ''USAddress'', Star]).
             elem_text e \<noteq> None"
    and "\<forall>e\<in>set (findall root [Self, Descendant ''PreparerUSAddress'', Star]). elem_text e \<noteq> None"
    and "\<forall>e\<in>set (findall root [Self, Descendant ''PreparerFirmUSAddress'', Star]).
           elem_text e \<noteq> None"
  shows "\<exists>d. parse_return root fname = Inr d \<and>
           map fst d = [''src_fname'', ''return_type'', ''ein'', ''business_name'',
             ''business_address'', ''preparer_firm'', ''preparer_address'', ''tax_year'']"
proof -
  note ok = safe_text_Many_ok [OF assms(1)] safe_text_Many_ok [OF assms(2)]
    safe_text_Many_ok [OF assms(3)]
  show ?thesis
    by (simp add: parse_return_def call_coalesce_def safe_text_find_ok ok del: safe_text.simps)
qed

text \<open>
  C7: the code departs from the claim. The document is well-formed and its filer address
  has an empty second line; \<open>parse_return\<close> raises TypeError and produces no Return Record.
\<close>

theorem return_with_empty_address_line_raises:
  "parse_return
     (Element (qname ''Return'') None
       [Element (qname ''ReturnHeader'') None
         [Element (qname ''Filer'') None
           [Element (qname ''EIN'') (Some ''123456789'') [],
            Element (qname ''USAddress'') None
              [Element (qname ''AddressLine1Txt'') (Some ''1 Main St'') [],
               Element (qname ''AddressLine2Txt'') None []]]]])
     ''201505.xml'' = Inl TypeError"
  by (simp add: parse_return_def lookup_defs call_defs)

subsection \<open>The officers: \<open>parse_officers\<close>\<close>

lemma officers_loop_eq:
  "officers_loop os records =
     err_bind (eval_args (map officer_fields os)) (\<lambda>fs. Inr (records @ fs))"
proof (induction os arbitrary: records)
  case Nil
  then show ?case by simp
next
  case (Cons x os)
  then show ?case by (simp add: err_bind_def split: sum.splits)
qed

text \<open>
  The header fallback runs exactly when the scan over the four tag names is empty;
  otherwise the result is made of the per-occurrence dicts alone, in scan order.
\<close>

lemma parse_officers_cases:
  "parse_officers root fname =
     (if officers_scan root = [] then header_fallback root []
      else eval_args (map officer_fields (officers_scan root)))"
proof (cases "officers_scan root = []")
  case True
  then show ?thesis by (simp add: parse_officers_def)
next
  case False
  show ?thesis
  proof (cases "eval_args (map officer_fields (officers_scan root))")
    case (Inl e)
    with False show ?thesis by (simp add: parse_officers_def officers_loop_eq)
  next
    case (Inr fs)
    then have "length fs = length (officers_scan root)"
      by (auto dest: eval_args_length)
    with False have "fs \<noteq> []" by auto
    with False Inr show ?thesis by (simp add: parse_officers_def officers_loop_eq)
  qed
qed

lemma parse_officers_per_occurrence:
  assumes "officers_scan root \<noteq> []" and "parse_officers root fname = Inr records"
  shows "length records = length (officers_scan root)"
  using assms by (auto simp: parse_officers_cases dest: eval_args_length)

lemma header_fallback_found:
  assumes "find_elem root [Self, Descendant ''BusinessOfficerGrp''] = Some e"
  shows "\<exists>name title. header_fallback root [] =
           Inr [[(''name'', name), (''title'', title), (''address'', Some '''')]]"
  using assms
  by (simp add: header_fallback_def header_officer_fields_def find_on_def call_coalesce_def
      safe_text_find_ok)

lemma header_fallback_missing:
  assumes "find_elem root [Self, Descendant ''BusinessOfficerGrp''] = None"
    and "find_elem root [Self, Descendant ''Officer''] = None"
  shows "header_fallback root records = Inl AttributeError"
  using assms
  by (simp add: header_fallback_def header_officer_fields_def find_on_def call_coalesce_def)

text \<open>
  C3: the code departs from the claim. The document has no repeated officer structure, no
  \<open>BusinessOfficerGrp\<close> and no \<open>Officer\<close> element; \<open>parse_officers\<close> does not return the
  empty list: \<open>officer.find\<close> is called on \<open>None\<close> and the AttributeError propagates.
\<close>

theorem missing_header_officer_raises:
  "officers_scan (Element (qname ''Return'') None [Element (qname ''ReturnHeader'') None []]) = [] \<and>
   find_elem (Element (qname ''Return'') None [Element (qname ''ReturnHeader'') None []])
     [Self, Descendant ''BusinessOfficerGrp''] = None \<and>
   find_elem (Element (qname ''Return'') None [Element (qname ''ReturnHeader'') None []])
     [Self, Descendant ''Officer''] = None \<and>
   parse_officers (Element (qname ''Return'') None [Element (qname ''ReturnHeader'') None []])
     ''201503.xml'' = Inl AttributeError"
  by (simp add: parse_officers_def officers_scan_def header_fallback_def header_officer_fields_def
      find_on_def lookup_defs call_defs)

text \<open>
  C5: the code departs from the claim. The scan finds one repeated officer structure, whose
  address has an empty line; \<open>parse_officers\<close> raises TypeError inside the loop and
  produces no Officer Record for the occurrence.
\<close>

theorem officer_with_empty_address_line_raises:
  "officers_scan
     (Element (qname ''Return'') None
       [Element (qname ''Form990PartVIISectionAGrp'') None
         [Element (qname ''PersonNm'') (Some ''Jane Doe'') [],
          Element (qname ''USAddress'') None [Element (qname ''AddressLine1Txt'') None []]]])
   = [Element (qname ''Form990PartVIISectionAGrp'') None
         [Element (qname ''PersonNm'') (Some ''Jane Doe'') [],
          Element (qname ''USAddress'') None [Element (qname ''AddressLine1Txt'') None []]]] \<and>
   parse_officers
     (Element (qname ''Return'') None
       [Element (qname ''Form990PartVIISectionAGrp'') None
         [Element (qname ''PersonNm'') (Some ''Jane Doe'') [],
          Element (qname ''USAddress'') None [Element (qname ''AddressLine1Txt'') None []]]])
     ''201504.xml'' = Inl TypeError"
  by (simp add: parse_officers_def officers_scan_def officer_fields_def lookup_defs call_defs)

subsection \<open>The grants: \<open>parse_grants\<close>\<close>

lemma grants_loop_eq:
  "grants_loop gs records =
     err_bind (eval_args (map grant_fields gs)) (\<lambda>fs. Inr (records @ fs))"
proof (induction gs arbitrary: records)
  case Nil
  then show ?case by simp
next
  case (Cons x gs)
  then show ?case by (simp add: err_bind_def split: sum.splits)
qed

text \<open>There is no fallback: the result is made of the per-occurrence dicts alone.\<close>

lemma parse_grants_eq:
  "parse_grants root fname =
     eval_args (map grant_fields (findall root [Self, Descendant ''GrantOrContributionPdDurYrGrp'']))"
  by (simp add: parse_grants_def grants_loop_eq err_bind_def split: sum.splits)

lemma parse_grants_per_occurrence:
  assumes "parse_grants root fname = Inr records"
  shows "length records = length (findall root [Self, Descendant ''GrantOrContributionPdDurYrGrp''])"
  using assms by (auto simp: parse_grants_eq dest: eval_args_length)

lemma parse_grants_none:
  assumes "findall root [Self, Descendant ''GrantOrContributionPdDurYrGrp''] = []"
  shows "parse_grants root fname = Inr []"
  using assms by (simp add: parse_grants_eq)

text \<open>
  C8: the code departs from the claim. The document has one repeated grant structure, whose
  recipient address has an empty line; \<open>parse_grants\<close> raises TypeError and produces no
  Grant Record for the occurrence.
\<close>

theorem grant_with_empty_address_line_raises:
  "findall
     (Element (qname ''Return'') None
       [Element (qname ''GrantOrContributionPdDurYrGrp'') None
         [Element (qname ''RecipientPersonNm'') (Some ''John Roe'') [],
          Element (qname ''RecipientUSAddress'') None [Element (qname ''AddressLine1Txt'') None []],
          Element (qname ''Amt'') (Some ''500'') []]])
     [Self, Descendant ''GrantOrContributionPdDurYrGrp'']
   = [Element (qname ''GrantOrContributionPdDurYrGrp'') None
         [Element (qname ''RecipientPersonNm'') (Some ''John Roe'') [],
          Element (qname ''RecipientUSAddress'') None [Element (qname ''AddressLine1Txt'') None []],
          Element (qname ''Amt'') (Some ''500'') []]] \<and>
   parse_grants
     (Element (qname ''Return'') None
       [Element (qname ''GrantOrContributionPdDurYrGrp'') None
         [Element (qname ''RecipientPersonNm'') (Some ''John Roe'') [],
          Element (qname ''RecipientUSAddress'') None [Element (qname ''AddressLine1Txt'') None []],
          Element (qname ''Amt'') (Some ''500'') []]])
     ''201506.xml'' = Inl TypeError"
  by (simp add: parse_grants_def grant_fields_def lookup_defs call_defs)

subsection \<open>Flattening: \<open>export_to_csv\<close>\<close>

lemma setitem_last: "setitem k v (setitem k v' d) = setitem k v d"
  by (induction d) auto

lemma stamp_apply:
  "stamp (b, g) h a = (if a = b then setitem ''src_fname'' (Some g) (h b) else h a)"
  by (simp add: stamp_def)

lemma stamp_loop_eq:
  "stamp_loop fname xs (h, out) = (fold stamp (map (\<lambda>a. (a, fname)) xs) h, out @ xs)"
  by (induction xs arbitrary: h out) (simp_all add: stamp_def)

lemma flatten_loop_eq:
  "flatten_loop rs (h, os, gs) =
     (fold stamp (concat (map stamps_of rs)) h, os @ concat (map officers rs),
      gs @ concat (map grants rs))"
  by (induction rs arbitrary: h os gs) (simp_all add: stamp_loop_eq stamps_of_def)

lemma frame_columns_nested:
  assumes "data \<noteq> []"
  shows "''officers'' \<in> set (frame_columns data)" and "''grants'' \<in> set (frame_columns data)"
proof -
  from assms obtain r rs where "data = r # rs" by (cases data) auto
  then show "''officers'' \<in> set (frame_columns data)" and "''grants'' \<in> set (frame_columns data)"
    by (simp_all add: frame_columns_def keys_of_def)
qed

lemma export_to_csv_eq:
  assumes "dt \<noteq> []"
  shows "export_to_csv h dt =
     (fold stamp (concat (map stamps_of dt)) h,
      Inr ((removeAll ''grants'' (removeAll ''officers'' (frame_columns dt)), map del_nested dt),
           map (fold stamp (concat (map stamps_of dt)) h) (concat (map officers dt)),
           map (fold stamp (concat (map stamps_of dt)) h) (concat (map grants dt))))"
  using frame_columns_nested [OF assms]
  by (simp add: export_to_csv_def flatten_loop_eq del_column_def)

text \<open>On no records the loop does nothing and \<open>del df['officers']\<close> raises KeyError.\<close>

lemma export_to_csv_empty: "export_to_csv h [] = (h, Inl KeyError)"
  by (simp add: export_to_csv_def frame_columns_def del_column_def)

text \<open>The store after a run, object by object: the last update of an object wins.\<close>

lemma fold_stamp_at:
  "fold stamp ss h a =
     (case map_of (rev ss) a of None \<Rightarrow> h a
      | Some f \<Rightarrow> setitem ''src_fname'' (Some f) (h a))"
proof (induction ss arbitrary: h)
  case Nil
  then show ?case by simp
next
  case (Cons s ss)
  obtain b g where s: "s = (b, g)" by (cases s)
  show ?case
    by (simp add: Cons.IH s stamp_apply map_add_def setitem_last split: option.splits)
qed

lemma fold_stamp_idem: "fold stamp ss (fold stamp ss h) = fold stamp ss h"
  by (rule ext) (simp add: fold_stamp_at [of ss "fold stamp ss h"] fold_stamp_at [of ss h]
      setitem_last split: option.splits)

lemma fold_stamp_frame:
  assumes "a \<notin> fst ` set ss"
  shows "fold stamp ss h a = h a"
proof -
  from assms have "map_of (rev ss) a = None"
    by (simp add: map_of_eq_None_iff)
  then show ?thesis by (simp add: fold_stamp_at)
qed

lemma fold_stamp_stamped:
  assumes "a \<in> fst ` set ss"
  shows "\<exists>f. (a, f) \<in> set ss \<and> fold stamp ss h a = setitem ''src_fname'' (Some f) (h a)"
proof -
  from assms have "map_of (rev ss) a \<noteq> None"
    by (simp add: map_of_eq_None_iff)
  then obtain f where f: "map_of (rev ss) a = Some f" by auto
  then have "(a, f) \<in> set ss" by (auto dest: map_of_SomeD)
  with f show ?thesis by (auto simp: fold_stamp_at)
qed

lemma fst_stamps:
  "fst ` set (concat (map stamps_of rs)) =
     set (concat (map officers rs)) \<union> set (concat (map grants rs))"
  by (auto simp: stamps_of_def image_iff; force)

text \<open>
  C6, as the claim states it, fails: flattening does not leave its input unchanged. The
  officer dict of the composite record is another dict after the run, since the loop has
  set its key \<open>src_fname\<close>.
\<close>

theorem export_to_csv_mutates_input_counterexample:
  "fst (export_to_csv ((\<lambda>a. [])(0 := [(''name'', Some ''Jane Doe''), (''title'', Some ''CFO''),
                                     (''address'', Some '''')]))
         [\<lparr>src_fname = ''201507.xml'', header = [(''ein'', Some ''123456789'')],
           officers = [0], grants = []\<rparr>]) 0
   \<noteq> ((\<lambda>a. [])(0 := [(''name'', Some ''Jane Doe''), (''title'', Some ''CFO''),
                      (''address'', Some '''')])) 0"
  by (simp add: export_to_csv_def)

text \<open>
  C6, amended: on a sequence of at least one composite record, flattening is order-preserving
  and idempotent, and it updates the nested records of its input in place. For every store
  and every non-empty sequence of composite records, flattening raises nothing and
  \<^item> the Return collection has one row per composite record, in the order of the sequence,
    each the record without its nested officers and grants (the frame has neither column);
  \<^item> the Officer and the Grant collection hold the nested records in source document order,
    then in their order within the document, nothing reordered and nothing dropped, each
    as the loop left it;
  \<^item> flattening again, on the store the first run left, yields the same three collections
    and leaves that store as it is;
  \<^item> a record that is in neither collection is unchanged; a record in one of them is what
    it was with the key \<open>src_fname\<close> set to the file name of a composite record that
    holds it.
\<close>

theorem export_to_csv_flattening:
  assumes "data_tree \<noteq> []" and "export_to_csv h data_tree = (h', result)"
  shows "result =
           Inr ((removeAll ''grants'' (removeAll ''officers'' (frame_columns data_tree)),
                 map del_nested data_tree),
                map h' (concat (map officers data_tree)),
                map h' (concat (map grants data_tree))) \<and>
         export_to_csv h' data_tree = (h', result) \<and>
         (\<forall>a. a \<notin> set (concat (map officers data_tree)) \<union> set (concat (map grants data_tree))
            \<longrightarrow> h' a = h a) \<and>
         (\<forall>a\<in>set (concat (map officers data_tree)) \<union> set (concat (map grants data_tree)).
            \<exists>r\<in>set data_tree. a \<in> set (officers r) \<union> set (grants r) \<and>
              h' a = setitem ''src_fname'' (Some (src_fname r)) (h a))"
proof -
  let ?ss = "concat (map stamps_of data_tree)"
  let ?os = "concat (map officers data_tree)"
  let ?gs = "concat (map grants data_tree)"
  from assms have h': "h' = fold stamp ?ss h"
    and result: "result =
      Inr ((removeAll ''grants'' (removeAll ''officers'' (frame_columns data_tree)),
            map del_nested data_tree), map h' ?os, map h' ?gs)"
    by (auto simp: export_to_csv_eq)
  have again: "export_to_csv h' data_tree = (h', result)"
    unfolding result by (simp add: export_to_csv_eq [OF assms(1)] h' fold_stamp_idem)
  have frame: "h' a = h a" if "a \<notin> set ?os \<union> set ?gs" for a
  proof -
    from that have "a \<notin> fst ` set ?ss" unfolding fst_stamps .
    then show ?thesis unfolding h' by (rule fold_stamp_frame)
  qed
  have stamped: "\<exists>r\<in>set data_tree. a \<in> set (officers r) \<union> set (grants r) \<and>
      h' a = setitem ''src_fname'' (Some (src_fname r)) (h a)" if "a \<in> set ?os \<union> set ?gs" for a
  proof -
    from that have "a \<in> fst ` set ?ss" unfolding fst_stamps .
    then obtain f where f: "(a, f) \<in> set ?ss"
      and eq: "h' a = setitem ''src_fname'' (Some f) (h a)"
      using fold_stamp_stamped [of a ?ss h] by (auto simp: h')
    from f obtain r where "r \<in> set data_tree" "(a, f) \<in> set (stamps_of r)" by auto
    then show ?thesis using eq by (auto simp: stamps_of_def)
  qed
  from result again frame stamped show ?thesis by blast
qed

theorem export_to_csv_flattening_witness:
  "[\<lparr>src_fname = ''a.xml'', header = [(''ein'', Some ''12'')], officers = [1, 0], grants = []\<rparr>,
    \<lparr>src_fname = ''b.xml'', header = [(''ein'', Some ''34'')], officers = [], grants = [2]\<rparr>] \<noteq> [] \<and>
   snd (export_to_csv ((\<lambda>a. [])(0 := [(''name'', Some ''Ann'')], 1 := [(''name'', Some ''Bob'')],
                                  2 := [(''amount'', Some ''10'')]))
         [\<lparr>src_fname = ''a.xml'', header = [(''ein'', Some ''12'')], officers = [1, 0], grants = []\<rparr>,
          \<lparr>src_fname = ''b.xml'', header = [(''ein'', Some ''34'')], officers = [], grants = [2]\<rparr>])
   = Inr (([''src_fname'', ''ein''],
           [\<lparr>src_fname = ''a.xml'', header = [(''ein'', Some ''12'')]\<rparr>,
            \<lparr>src_fname = ''b.xml'', header = [(''ein'', Some ''34'')]\<rparr>]),
          [[(''name'', Some ''Bob''), (''src_fname'', Some ''a.xml'')],
           [(''name'', Some ''Ann''), (''src_fname'', Some ''a.xml'')]],
          [[(''amount'', Some ''10''), (''src_fname'', Some ''b.xml'')]]) \<and>
   export_to_csv
     (fst (export_to_csv ((\<lambda>a. [])(0 := [(''name'', Some ''Ann'')], 1 := [(''name'', Some ''Bob'')],
                                     2 := [(''amount'', Some ''10'')]))
         [\<lparr>src_fname = ''a.xml'', header = [(''ein'', Some ''12'')], officers = [1, 0], grants = []\<rparr>,
          \<lparr>src_fname = ''b.xml'', header = [(''ein'', Some ''34'')], officers = [], grants = [2]\<rparr>]))
     [\<lparr>src_fname = ''a.xml'', header = [(''ein'', Some ''12'')], officers = [1, 0], grants = []\<rparr>,
      \<lparr>src_fname = ''b.xml'', header = [(''ein'', Some ''34'')], officers = [], grants = [2]\<rparr>]
   = export_to_csv ((\<lambda>a. [])(0 := [(''name'', Some ''Ann'')], 1 := [(''name'', Some ''Bob'')],
                                2 := [(''amount'', Some ''10'')]))
       [\<lparr>src_fname = ''a.xml'', header = [(''ein'', Some ''12'')], officers = [1, 0], grants = []\<rparr>,
        \<lparr>src_fname = ''b.xml'', header = [(''ein'', Some ''34'')], officers = [], grants = [2]\<rparr>]"
  (is "?nonempty \<and> ?collections \<and> ?again")
proof -
  let ?h = "(\<lambda>a. [])(0 := [(''name'', Some ''Ann'')], 1 := [(''name'', Some ''Bob'')],
                    2 := [(''amount'', Some ''10'')]) :: heap"
  let ?dt = "[\<lparr>src_fname = ''a.xml'', header = [(''ein'', Some ''12'')], officers = [1, 0], grants = []\<rparr>,
              \<lparr>src_fname = ''b.xml'', header = [(''ein'', Some ''34'')], officers = [], grants = [2]\<rparr>]"
  have nonempty: ?nonempty
    by simp
  have run: "export_to_csv ?h ?dt = (fst (export_to_csv ?h ?dt), snd (export_to_csv ?h ?dt))"
    by simp
  from export_to_csv_flattening [OF nonempty run]
  have "export_to_csv (fst (export_to_csv ?h ?dt)) ?dt
          = (fst (export_to_csv ?h ?dt), snd (export_to_csv ?h ?dt))"
    by blast
  then have again: ?again
    by (rule trans [OF _ run [symmetric]])
  have collections: ?collections
    by (simp add: export_to_csv_def frame_columns_def keys_of_def del_column_def del_nested_def)
  from nonempty collections again show ?thesis
    by (intro conjI)
qed

end
